theory Spec2Isabelle
  imports Main
begin

section \<open>CSV to HealthDCAT converter: the embedding\<close>

text \<open>
  A shallow embedding of \<^verbatim>\<open>src/csv_to_healthdcat/converter.py\<close>: the class
  \<^verbatim>\<open>CSVToHealthDCAT\<close> with its methods \<^verbatim>\<open>convert_csv\<close>,
  \<^verbatim>\<open>_add_dataset_to_graph\<close> and \<^verbatim>\<open>_get_theme_uri\<close>.

  The libraries the module calls are not part of the repository and are modelled by what the
  module observes of them:
  \<^item> pandas: a data frame is its column labels and its rows, each row with its index label and
    its cells; a cell is the missing-value marker or a value known by its Python
    \<^verbatim>\<open>str()\<close>;
  \<^item> rdflib: a graph is a set of triples (adding a triple twice is adding it once), a term is
    a \<^verbatim>\<open>URIRef\<close> or a plain \<^verbatim>\<open>Literal\<close>;
  \<^item> \<^verbatim>\<open>urllib.parse.urljoin\<close> and the Unicode-aware string methods \<^verbatim>\<open>str.upper\<close>,
    \<^verbatim>\<open>str.lower\<close> and \<^verbatim>\<open>str.strip\<close>: parameters of every function that calls them, so
    that each result holds for whatever the library computes, on every text;
  \<^item> the file system and \<^verbatim>\<open>pd.read_csv\<close>: a map from paths to what reading the path gives.

  A Python string is modelled by the \<^typ>\<open>string\<close> of its UTF-8 bytes. The bytes of the space,
  the hyphen and the semicolon occur in such a string only as these characters, so replacing
  the one by the other and splitting at the semicolon are the same on the bytes as on the text.
\<close>

subsection \<open>Python string operations\<close>

text \<open>\<^verbatim>\<open>s.replace(old, new)\<close> for one-character \<open>old\<close> and \<open>new\<close> below 128.\<close>

definition str_replace :: "char \<Rightarrow> char \<Rightarrow> string \<Rightarrow> string" where
  "str_replace old new s = map (\<lambda>c. if c = old then new else c) s"

text \<open>
  \<^verbatim>\<open>s.split(sep)\<close> for a one-character separator below 128: the pieces between the
  separators, in order; the empty string gives one empty piece, a trailing separator a last
  empty piece.
\<close>

fun str_split :: "char \<Rightarrow> string \<Rightarrow> string list" where
  "str_split sep [] = [[]]"
| "str_split sep (c # cs) =
     (if c = sep then [] # str_split sep cs
      else (case str_split sep cs of
              [] \<Rightarrow> [[c]]
            | piece # pieces \<Rightarrow> (c # piece) # pieces))"

text \<open>\<^verbatim>\<open>str(n)\<close> for an integer: decimal digits, with a minus sign below zero.\<close>

fun str_nat :: "nat \<Rightarrow> string" where
  "str_nat n =
     (if n < 10 then [''0123456789'' ! n]
      else str_nat (n div 10) @ [''0123456789'' ! (n mod 10)])"

declare str_nat.simps [simp del]

definition str_int :: "int \<Rightarrow> string" where
  "str_int i = (if i < 0 then CHR ''-'' # str_nat (nat (- i)) else str_nat (nat i))"

text \<open>
  The library functions that the converter calls and that are taken as they come:
  \<^verbatim>\<open>urljoin(base, url)\<close>, \<^verbatim>\<open>s.upper()\<close>, \<^verbatim>\<open>s.lower()\<close> and \<^verbatim>\<open>s.strip()\<close>.
\<close>

record pylib =
  urljoin :: "string \<Rightarrow> string \<Rightarrow> string"
  upper :: "string \<Rightarrow> string"
  lower :: "string \<Rightarrow> string"
  strip :: "string \<Rightarrow> string"

subsection \<open>pandas: cells, rows, labels and data frames\<close>

text \<open>
  A cell of a frame read by \<^verbatim>\<open>pd.read_csv\<close>: \<open>NaN\<close> is the missing-value marker (what an
  empty field of the file becomes), \<open>Val s\<close> any other value, \<open>s\<close> being its \<^verbatim>\<open>str()\<close>.
\<close>

datatype cell = NaN | Val string

text \<open>\<^verbatim>\<open>pd.notna(x)\<close>, and \<^verbatim>\<open>str(x)\<close> (equally \<^verbatim>\<open>f"{x}"\<close>): the marker prints as \<^verbatim>\<open>nan\<close>.\<close>

fun notna :: "cell \<Rightarrow> bool" where
  "notna NaN = False"
| "notna (Val s) = True"

fun str_cell :: "cell \<Rightarrow> string" where
  "str_cell NaN = ''nan''"
| "str_cell (Val s) = s"

text \<open>
  A row (\<^verbatim>\<open>pd.Series\<close>) maps the column labels to cells: \<open>row k = None\<close> is
  \<^verbatim>\<open>k not in row\<close>, and \<^verbatim>\<open>row.get(k, d)\<close> is a case distinction on \<open>row k\<close>.
\<close>

type_synonym row = "string \<rightharpoonup> cell"

text \<open>The guard \<^verbatim>\<open>k in row and pd.notna(row[k])\<close>, giving the cell it lets through.\<close>

definition present :: "row \<Rightarrow> string \<Rightarrow> cell option" where
  "present row k = (case row k of None \<Rightarrow> None | Some v \<Rightarrow> if notna v then Some v else None)"

text \<open>
  The index label of a row. With as many fields in each data line as in the header,
  \<^verbatim>\<open>pd.read_csv\<close> numbers the rows 0, 1, 2, ...; with one field more, it takes the first
  field of each line as the label. \<open>IntLabel i\<close> is an integer label, \<open>NumLabel s\<close> another
  numeric label (a float, the missing-value marker included), \<open>s\<close> being the text of the label
  plus one, and \<open>StrLabel s\<close> a text label.
\<close>

datatype label = IntLabel int | NumLabel string | StrLabel string

record dataframe =
  columns :: "string list"
  records :: "(label \<times> cell list) list"

text \<open>\<^verbatim>\<open>df.empty\<close>: some axis has length zero.\<close>

definition df_empty :: "dataframe \<Rightarrow> bool" where
  "df_empty df = (columns df = [] \<or> records df = [])"

text \<open>\<^verbatim>\<open>df.iterrows()\<close>: the rows in order, each with its index label.\<close>

definition iterrows :: "dataframe \<Rightarrow> (label \<times> row) list" where
  "iterrows df = map (\<lambda>(idx, cells). (idx, map_of (zip (columns df) cells))) (records df)"


subsection \<open>rdflib: terms, triples, namespaces\<close>

datatype node = URIRef string | Literal string

type_synonym triple = "node \<times> node \<times> node"

definition DCAT :: string where "DCAT = ''http://www.w3.org/ns/dcat#''"
definition FOAF :: string where "FOAF = ''http://xmlns.com/foaf/0.1/''"
definition DCTERMS :: string where "DCTERMS = ''http://purl.org/dc/terms/''"
definition RDF :: string where "RDF = ''http://www.w3.org/1999/02/22-rdf-syntax-ns#''"

text \<open>\<^verbatim>\<open>NS.name\<close>: the term of a namespace.\<close>

definition ns_term :: "string \<Rightarrow> string \<Rightarrow> node" where
  "ns_term ns name = URIRef (ns @ name)"

text \<open>
  Reading a sequence of triples as \<^verbatim>\<open>graph.triples((None, p, None))\<close>,
  \<^verbatim>\<open>graph.subjects(predicate=p)\<close> and \<^verbatim>\<open>graph.objects(predicate=p)\<close> read a graph.
\<close>

definition with_predicate :: "node \<Rightarrow> triple list \<Rightarrow> triple list" where
  "with_predicate p ts = filter (\<lambda>t. fst (snd t) = p) ts"

definition subjects :: "node \<Rightarrow> triple list \<Rightarrow> node list" where
  "subjects p ts = map fst (with_predicate p ts)"

definition objects :: "node \<Rightarrow> triple list \<Rightarrow> node list" where
  "objects p ts = map (\<lambda>t. snd (snd t)) (with_predicate p ts)"

subsection \<open>The converter\<close>

text \<open>\<^verbatim>\<open>self\<close>: the base URI and the graph, which starts empty (\<^verbatim>\<open>__init__\<close>).\<close>

record converter =
  base_uri :: string
  graph :: "triple set"

definition init :: "string \<Rightarrow> converter" where
  "init base = \<lparr>base_uri = base, graph = {}\<rparr>"

text \<open>\<^verbatim>\<open>self.graph.add(t)\<close>.\<close>

definition graph_add :: "converter \<Rightarrow> triple \<Rightarrow> converter" where
  "graph_add self t = self\<lparr>graph := insert t (graph self)\<rparr>"

text \<open>
  The exceptions: the \<^verbatim>\<open>FileNotFoundError\<close> and the two \<^verbatim>\<open>ValueError\<close>s that
  \<^verbatim>\<open>convert_csv\<close> raises itself, and the \<^verbatim>\<open>TypeError\<close> of adding one to a text label.
  The text of the second \<^verbatim>\<open>ValueError\<close> prints a Python set, whose order is not fixed; the
  model keeps the set.
\<close>

datatype message = Failed_to_read string | Missing_required_columns "string set"

datatype error = FileNotFoundError string | ValueError message | TypeError

text \<open>\<^verbatim>\<open>_get_theme_uri\<close> (lines 163 to 190): a dictionary lookup with the default \<^verbatim>\<open>HEAL\<close>.\<close>

definition theme_mapping :: "string \<rightharpoonup> string" where
  "theme_mapping = map_of
     [(''HEALTH'', ''HEAL''),
      (''HEAL'', ''HEAL''),
      (''MEDICINE'', ''HEAL''),
      (''SCIENCE'', ''SCIE''),
      (''EDUCATION'', ''EDUC''),
      (''ENVIRONMENT'', ''ENVI''),
      (''TECHNOLOGY'', ''TECH'')]"

definition get_theme_uri :: "string \<Rightarrow> node" where
  "get_theme_uri theme =
     (let mapped_theme = (case theme_mapping theme of Some code \<Rightarrow> code | None \<Rightarrow> ''HEAL'')
      in URIRef (''http://publications.europa.eu/resource/authority/data-theme/'' @ mapped_theme))"

text \<open>
  Line 106, the default of \<^verbatim>\<open>row.get\<close>: Python evaluates \<^verbatim>\<open>f"dataset-{row_index + 1}"\<close>
  before it calls \<^verbatim>\<open>row.get\<close>, whether or not the row has an \<^verbatim>\<open>id\<close>, and adding one to
  a text label raises.
\<close>

definition default_dataset_id :: "label \<Rightarrow> error + string" where
  "default_dataset_id row_index =
     (case row_index of
        IntLabel i \<Rightarrow> Inr (''dataset-'' @ str_int (i + 1))
      | NumLabel s \<Rightarrow> Inr (''dataset-'' @ s)
      | StrLabel s \<Rightarrow> Inl TypeError)"

text \<open>Lines 106 and 107: the dataset's identifier, given that fallback, and its URI.\<close>

definition dataset_uri :: "pylib \<Rightarrow> string \<Rightarrow> row \<Rightarrow> string \<Rightarrow> node" where
  "dataset_uri lib base row fallback =
     (let dataset_id = (case row ''id'' of Some v \<Rightarrow> str_cell v | None \<Rightarrow> fallback)
      in URIRef (urljoin lib base (''dataset/'' @ dataset_id)))"

text \<open>
  Lines 109 to 159 of \<^verbatim>\<open>_add_dataset_to_graph\<close>: the method is a straight line of
  \<^verbatim>\<open>self.graph.add\<close> calls, each under its guard; \<open>dataset_adds\<close> is the sequence of the
  triples it adds, in the order of the calls.
\<close>

definition dataset_adds :: "pylib \<Rightarrow> string \<Rightarrow> row \<Rightarrow> string \<Rightarrow> triple list" where
  "dataset_adds lib base row fallback =
     (let dataset_uri = dataset_uri lib base row fallback;
          title = (case row ''title'' of Some v \<Rightarrow> str_cell v | None \<Rightarrow> ''Unknown'');
          description = (case row ''description'' of Some v \<Rightarrow> str_cell v | None \<Rightarrow> '''')
      in [(dataset_uri, ns_term RDF ''type'', ns_term DCAT ''Dataset'')]
       @ [(dataset_uri, ns_term DCTERMS ''title'', Literal title)]
       @ (if description \<noteq> '''' then
            [(dataset_uri, ns_term DCTERMS ''description'', Literal description)]
          else [])
       @ (case present row ''publisher'' of
            Some v \<Rightarrow>
              (let publisher_name = str_cell v;
                   publisher_uri = URIRef (urljoin lib base (''organization/'' @
                       lower lib (str_replace (CHR '' '') (CHR ''-'') publisher_name)))
               in [(dataset_uri, ns_term DCTERMS ''publisher'', publisher_uri),
                   (publisher_uri, ns_term RDF ''type'', ns_term FOAF ''Organization''),
                   (publisher_uri, ns_term FOAF ''name'', Literal publisher_name)])
          | None \<Rightarrow> [])
       @ (case present row ''issued'' of
            Some v \<Rightarrow> [(dataset_uri, ns_term DCTERMS ''issued'', Literal (str_cell v))]
          | None \<Rightarrow> [])
       @ (case present row ''modified'' of
            Some v \<Rightarrow> [(dataset_uri, ns_term DCTERMS ''modified'', Literal (str_cell v))]
          | None \<Rightarrow> [])
       @ (case present row ''license'' of
            Some v \<Rightarrow> [(dataset_uri, ns_term DCTERMS ''license'', URIRef (str_cell v))]
          | None \<Rightarrow> [])
       @ (case present row ''theme'' of
            Some v \<Rightarrow>
              (let theme_value = upper lib (str_cell v);
                   theme_uri = get_theme_uri theme_value
               in [(dataset_uri, ns_term DCAT ''theme'', theme_uri)])
          | None \<Rightarrow> [])
       @ (case present row ''keyword'' of
            Some v \<Rightarrow>
              (let keywords = str_split (CHR '';'') (str_cell v)
               in map (\<lambda>keyword. (dataset_uri, ns_term DCAT ''keyword'', Literal (strip lib keyword)))
                    keywords)
          | None \<Rightarrow> [])
       @ (case present row ''landing_page'' of
            Some v \<Rightarrow> [(dataset_uri, ns_term DCAT ''landingPage'', URIRef (str_cell v))]
          | None \<Rightarrow> []))"

text \<open>
  \<^verbatim>\<open>_add_dataset_to_graph\<close> (lines 97 to 161): the fallback identifier first, which may
  raise before anything is added, then the adds, applied to the graph in order.
\<close>

definition add_dataset_to_graph :: "pylib \<Rightarrow> converter \<Rightarrow> row \<Rightarrow> label \<Rightarrow> error + converter" where
  "add_dataset_to_graph lib self row row_index =
     (case default_dataset_id row_index of
        Inl e \<Rightarrow> Inl e
      | Inr fallback \<Rightarrow> Inr (foldl graph_add self (dataset_adds lib (base_uri self) row fallback)))"

text \<open>
  What \<^verbatim>\<open>convert_csv\<close> finds at a path: nothing (\<open>None\<close>), a file that \<^verbatim>\<open>pd.read_csv\<close>
  rejects with some exception text, or a file it reads into a frame.
\<close>

datatype csv_file = Unparsable string | Table dataframe

text \<open>
  The loop of lines 92 and 93. An exception of the mapper ends it; what the rows before have
  added stays in the graph.
\<close>

fun process_rows :: "pylib \<Rightarrow> converter \<Rightarrow> (label \<times> row) list \<Rightarrow> error option \<times> converter" where
  "process_rows lib self [] = (None, self)"
| "process_rows lib self ((idx, row) # rest) =
     (case add_dataset_to_graph lib self row idx of
        Inl e \<Rightarrow> (Some e, self)
      | Inr self' \<Rightarrow> process_rows lib self' rest)"

text \<open>
  \<^verbatim>\<open>convert_csv\<close> (lines 56 to 95): the result is the exception raised or the graph returned,
  together with the converter as the call leaves it.
\<close>

definition convert_csv ::
  "pylib \<Rightarrow> (string \<rightharpoonup> csv_file) \<Rightarrow> converter \<Rightarrow> string \<Rightarrow> (error + triple set) \<times> converter" where
  "convert_csv lib fs self csv_path =
     (case fs csv_path of
        None \<Rightarrow> (Inl (FileNotFoundError (''CSV file not found: '' @ csv_path)), self)
      | Some (Unparsable e) \<Rightarrow> (Inl (ValueError (Failed_to_read e)), self)
      | Some (Table df) \<Rightarrow>
          if df_empty df then (Inr (graph self), self)
          else
            (let required_columns = {''title'', ''description''};
                 missing_columns = required_columns - set (columns df)
             in if missing_columns \<noteq> {} then
                  (Inl (ValueError (Missing_required_columns missing_columns)), self)
                else
                  (case process_rows lib self (iterrows df) of
                     (Some e, self') \<Rightarrow> (Inl e, self')
                   | (None, self') \<Rightarrow> (Inr (graph self'), self'))))"

subsection \<open>The library on ASCII text\<close>

text \<open>
  To run the model on concrete inputs, the library functions as they act on ASCII text:
  \<^verbatim>\<open>upper\<close> and \<^verbatim>\<open>lower\<close> map the 26 letters and leave the rest, \<^verbatim>\<open>strip\<close> removes the
  characters \<^verbatim>\<open>str.isspace\<close> accepts below 128 (tab, line feed, vertical tab, form feed,
  carriage return, the four separators 0x1C to 0x1F, the space) from both ends, and joining a
  plain relative path to a base that ends in a slash appends it. They are used on such inputs
  only.
\<close>

definition ascii_lowercase :: string where
  "ascii_lowercase = ''abcdefghijklmnopqrstuvwxyz''"

definition ascii_uppercase :: string where
  "ascii_uppercase = ''ABCDEFGHIJKLMNOPQRSTUVWXYZ''"

definition ascii_upper :: "string \<Rightarrow> string" where
  "ascii_upper s =
     map (\<lambda>c. case map_of (zip ascii_lowercase ascii_uppercase) c of Some u \<Rightarrow> u | None \<Rightarrow> c) s"

definition ascii_lower :: "string \<Rightarrow> string" where
  "ascii_lower s =
     map (\<lambda>c. case map_of (zip ascii_uppercase ascii_lowercase) c of Some l \<Rightarrow> l | None \<Rightarrow> c) s"

definition ascii_whitespace :: string where
  "ascii_whitespace = [CHR 0x09, CHR 0x0A, CHR 0x0B, CHR 0x0C, CHR 0x0D,
                       CHR 0x1C, CHR 0x1D, CHR 0x1E, CHR 0x1F, CHR 0x20]"

definition ascii_strip :: "string \<Rightarrow> string" where
  "ascii_strip s =
     rev (dropWhile (\<lambda>c. c \<in> set ascii_whitespace)
       (rev (dropWhile (\<lambda>c. c \<in> set ascii_whitespace) s)))"

definition concat_join :: "string \<Rightarrow> string \<Rightarrow> string" where
  "concat_join base url = base @ url"

definition ascii_lib :: pylib where
  "ascii_lib = \<lparr>urljoin = concat_join, upper = ascii_upper, lower = ascii_lower,
                 strip = ascii_strip\<rparr>"

section \<open>Auxiliary facts\<close>

lemmas ns_defs = ns_term_def DCAT_def FOAF_def DCTERMS_def RDF_def

lemmas ascii_defs =
  ascii_lib_def concat_join_def ascii_upper_def ascii_lower_def ascii_lowercase_def
  ascii_uppercase_def ascii_strip_def ascii_whitespace_def str_replace_def

lemmas run_defs =
  convert_csv_def df_empty_def iterrows_def add_dataset_to_graph_def default_dataset_id_def
  dataset_adds_def dataset_uri_def graph_add_def present_def str_int_def str_nat.simps
  concat_join_def ascii_lib_def init_def Let_def

subsection \<open>Selecting the triples of one predicate\<close>

lemma with_predicate_append:
  "with_predicate p (xs @ ys) = with_predicate p xs @ with_predicate p ys"
  by (simp add: with_predicate_def)

lemma with_predicate_Nil: "with_predicate p [] = []"
  by (simp add: with_predicate_def)

lemma with_predicate_Cons:
  "with_predicate p ((s, q, ob) # ts) =
     (if q = p then (s, q, ob) # with_predicate p ts else with_predicate p ts)"
  by (simp add: with_predicate_def)

lemma with_predicate_option:
  "with_predicate p (case x of None \<Rightarrow> [] | Some v \<Rightarrow> f v) =
     (case x of None \<Rightarrow> [] | Some v \<Rightarrow> with_predicate p (f v))"
  by (cases x) (simp_all add: with_predicate_Nil)

lemma with_predicate_map:
  "with_predicate p (map (\<lambda>k. (s, q, g k)) ks) =
     (if q = p then map (\<lambda>k. (s, q, g k)) ks else [])"
  by (induction ks) (simp_all add: with_predicate_def)

lemma case_option_same: "(case x of None \<Rightarrow> c | Some v \<Rightarrow> c) = c"
  by (cases x) simp_all

lemmas with_predicate_simps =
  with_predicate_append with_predicate_Nil with_predicate_Cons with_predicate_option
  with_predicate_map case_option_same

lemma title_triples:
  "with_predicate (ns_term DCTERMS ''title'') (dataset_adds lib base row d) =
     [(dataset_uri lib base row d, ns_term DCTERMS ''title'',
       Literal (case row ''title'' of Some v \<Rightarrow> str_cell v | None \<Rightarrow> ''Unknown''))]"
  by (simp add: dataset_adds_def Let_def with_predicate_simps ns_defs cong: option.case_cong)

lemma description_triples:
  "with_predicate (ns_term DCTERMS ''description'') (dataset_adds lib base row d) =
     (case row ''description'' of
        None \<Rightarrow> []
      | Some v \<Rightarrow>
          if str_cell v = '''' then []
          else [(dataset_uri lib base row d, ns_term DCTERMS ''description'',
                 Literal (str_cell v))])"
  by (cases "row ''description''")
     (simp_all add: dataset_adds_def Let_def with_predicate_simps ns_defs cong: option.case_cong)

lemma theme_triples:
  "present row ''theme'' = Some v \<Longrightarrow>
   with_predicate (ns_term DCAT ''theme'') (dataset_adds lib base row d) =
     [(dataset_uri lib base row d, ns_term DCAT ''theme'',
       get_theme_uri (upper lib (str_cell v)))]"
  by (simp add: dataset_adds_def Let_def with_predicate_simps ns_defs cong: option.case_cong)

lemma publisher_triples:
  "present row ''publisher'' = Some v \<Longrightarrow>
   with_predicate (ns_term DCTERMS ''publisher'') (dataset_adds lib base row d) =
     [(dataset_uri lib base row d, ns_term DCTERMS ''publisher'',
       URIRef (urljoin lib base (''organization/'' @
         lower lib (str_replace (CHR '' '') (CHR ''-'') (str_cell v)))))]"
  by (simp add: dataset_adds_def Let_def with_predicate_simps ns_defs cong: option.case_cong)

lemma publisher_name_triples:
  "present row ''publisher'' = Some v \<Longrightarrow>
   with_predicate (ns_term FOAF ''name'') (dataset_adds lib base row d) =
     [(URIRef (urljoin lib base (''organization/'' @
         lower lib (str_replace (CHR '' '') (CHR ''-'') (str_cell v)))),
       ns_term FOAF ''name'', Literal (str_cell v))]"
  by (simp add: dataset_adds_def Let_def with_predicate_simps ns_defs cong: option.case_cong)

lemma keyword_triples_of_pieces:
  "present row ''keyword'' = Some v \<Longrightarrow>
   with_predicate (ns_term DCAT ''keyword'') (dataset_adds lib base row d) =
     map (\<lambda>piece. (dataset_uri lib base row d, ns_term DCAT ''keyword'',
                    Literal (strip lib piece)))
         (str_split (CHR '';'') (str_cell v))"
  by (simp add: dataset_adds_def Let_def with_predicate_simps ns_defs cong: option.case_cong)

lemma first_adds:
  "take 2 (dataset_adds lib base row d) =
     [(dataset_uri lib base row d, ns_term RDF ''type'', ns_term DCAT ''Dataset''),
      (dataset_uri lib base row d, ns_term DCTERMS ''title'',
       Literal (case row ''title'' of Some v \<Rightarrow> str_cell v | None \<Rightarrow> ''Unknown''))]"
  by (simp add: dataset_adds_def Let_def)


subsection \<open>Strings\<close>

lemma str_split_not_Nil: "str_split sep s \<noteq> []"
  by (induction s) (simp_all split: list.splits)

lemma str_split_length: "length (str_split sep s) = Suc (count_list s sep)"
  by (induction s) (auto simp: str_split_not_Nil split: list.splits)

lemma str_split_pieces: "piece \<in> set (str_split sep s) \<Longrightarrow> sep \<notin> set piece"
  by (induction s arbitrary: piece) (auto split: if_splits list.splits)

lemma str_int_one: "str_int 1 = ''1''"
  by (simp add: str_int_def str_nat.simps)

lemma default_dataset_id_first: "default_dataset_id (IntLabel 0) = Inr ''dataset-1''"
  by (simp add: default_dataset_id_def str_int_one)

subsection \<open>The graph after a row, and after the loop\<close>

lemma foldl_graph_add:
  "foldl graph_add self ts = self\<lparr>graph := graph self \<union> set ts\<rparr>"
  by (induction ts arbitrary: self) (simp_all add: graph_add_def)

lemma add_dataset_to_graph_ok:
  "default_dataset_id row_index = Inr d \<Longrightarrow>
   add_dataset_to_graph lib self row row_index =
     Inr (self\<lparr>graph := graph self \<union> set (dataset_adds lib (base_uri self) row d)\<rparr>)"
  by (simp add: add_dataset_to_graph_def foldl_graph_add)

lemma add_dataset_to_graph_error:
  "add_dataset_to_graph lib self row row_index = Inl e \<Longrightarrow> e = TypeError"
  by (cases row_index) (simp_all add: add_dataset_to_graph_def default_dataset_id_def)

lemma add_dataset_to_graph_result:
  "add_dataset_to_graph lib self row row_index = Inr self' \<Longrightarrow>
   base_uri self' = base_uri self \<and> graph self \<subseteq> graph self'"
  by (cases row_index)
     (auto simp: add_dataset_to_graph_def default_dataset_id_def foldl_graph_add)

lemma process_rows_error:
  "fst (process_rows lib self rows) = Some e \<Longrightarrow> e = TypeError"
proof (induction rows arbitrary: self)
  case Nil
  then show ?case by simp
next
  case (Cons r rows)
  obtain idx row where r: "r = (idx, row)" by (cases r)
  show ?case
  proof (cases "add_dataset_to_graph lib self row idx")
    case (Inl e')
    with Cons.prems r have "e = e'" by simp
    with add_dataset_to_graph_error [OF Inl] show ?thesis by simp
  next
    case (Inr self')
    with Cons.prems r have "fst (process_rows lib self' rows) = Some e" by simp
    then show ?thesis by (rule Cons.IH)
  qed
qed

lemma process_rows_base_uri:
  "base_uri (snd (process_rows lib self rows)) = base_uri self"
proof (induction rows arbitrary: self)
  case Nil
  show ?case by simp
next
  case (Cons r rows)
  obtain idx row where r: "r = (idx, row)" by (cases r)
  show ?case
  proof (cases "add_dataset_to_graph lib self row idx")
    case (Inl e')
    with r show ?thesis by simp
  next
    case (Inr self')
    from add_dataset_to_graph_result [OF Inr] Cons.IH [of self'] Inr r
    show ?thesis by simp
  qed
qed









section \<open>The claims\<close>

subsection \<open>C1: the title of a record\<close>

text \<open>
  C1 says that a record whose \<^verbatim>\<open>title\<close> is blank or missing gets the title literal
  \<^verbatim>\<open>Unknown\<close>, and that every record gets a title triple. The code gives the default only
  when the row has no \<^verbatim>\<open>title\<close> label. A file with the header
  \<^verbatim>\<open>title,description\<close> and the one data line \<^verbatim>\<open>,Readings\<close> is read into a frame whose
  title cell is the missing-value marker; \<^verbatim>\<open>convert_csv\<close> accepts it, and the title literal
  of the dataset is the text \<^verbatim>\<open>nan\<close>, not \<^verbatim>\<open>Unknown\<close>.
\<close>

theorem blank_title_becomes_nan:
  "convert_csv ascii_lib
     [''datasets.csv'' \<mapsto> Table \<lparr>columns = [''title'', ''description''],
                                   records = [(IntLabel 0, [NaN, Val ''Readings''])]\<rparr>]
     (init ''http://example.org/'') ''datasets.csv'' =
   (Inr {(URIRef ''http://example.org/dataset/dataset-1'', ns_term RDF ''type'',
          ns_term DCAT ''Dataset''),
         (URIRef ''http://example.org/dataset/dataset-1'', ns_term DCTERMS ''title'',
          Literal ''nan''),
         (URIRef ''http://example.org/dataset/dataset-1'', ns_term DCTERMS ''description'',
          Literal ''Readings'')},
    \<lparr>base_uri = ''http://example.org/'',
     graph = {(URIRef ''http://example.org/dataset/dataset-1'', ns_term RDF ''type'',
               ns_term DCAT ''Dataset''),
              (URIRef ''http://example.org/dataset/dataset-1'', ns_term DCTERMS ''title'',
               Literal ''nan''),
              (URIRef ''http://example.org/dataset/dataset-1'', ns_term DCTERMS ''description'',
               Literal ''Readings'')}\<rparr>)"
  by (simp add: run_defs) (auto simp: ns_defs)

text \<open>
  The parts of C1 that the code keeps: a row without the label gets \<^verbatim>\<open>Unknown\<close>, and every
  row gets exactly one title triple, on the dataset's URI.
\<close>

lemma absent_title_unknown:
  "row ''title'' = None \<Longrightarrow>
   objects (ns_term DCTERMS ''title'') (dataset_adds lib base row d) = [Literal ''Unknown'']"
  by (simp add: objects_def title_triples)

lemma one_title_triple:
  "length (with_predicate (ns_term DCTERMS ''title'') (dataset_adds lib base row d)) = 1
   \<and> subjects (ns_term DCTERMS ''title'') (dataset_adds lib base row d) =
       [dataset_uri lib base row d]"
  by (simp add: subjects_def title_triples)

subsection \<open>C2: the description of a record\<close>

text \<open>
  C2 says that a record whose \<^verbatim>\<open>description\<close> is missing, or empty once turned into text,
  gets no description triple. Since \<^verbatim>\<open>convert_csv\<close> requires the column, the one missing
  description it can pass on is a blank cell, which \<^verbatim>\<open>pd.read_csv\<close> reads as the
  missing-value marker. Its text is \<^verbatim>\<open>nan\<close>, which is not empty: a file with the header
  \<^verbatim>\<open>title,description\<close> and the one data line \<^verbatim>\<open>Blood Pressure Dataset,\<close> gets a
  description triple with the literal \<^verbatim>\<open>nan\<close>. The other optional fields are guarded by
  \<^verbatim>\<open>pd.notna\<close>; the description, like the title, is not.
\<close>

theorem blank_description_becomes_nan:
  "convert_csv ascii_lib
     [''datasets.csv'' \<mapsto> Table \<lparr>columns = [''title'', ''description''],
                                   records = [(IntLabel 0, [Val ''Blood Pressure Dataset'', NaN])]\<rparr>]
     (init ''http://example.org/'') ''datasets.csv'' =
   (Inr {(URIRef ''http://example.org/dataset/dataset-1'', ns_term RDF ''type'',
          ns_term DCAT ''Dataset''),
         (URIRef ''http://example.org/dataset/dataset-1'', ns_term DCTERMS ''title'',
          Literal ''Blood Pressure Dataset''),
         (URIRef ''http://example.org/dataset/dataset-1'', ns_term DCTERMS ''description'',
          Literal ''nan'')},
    \<lparr>base_uri = ''http://example.org/'',
     graph = {(URIRef ''http://example.org/dataset/dataset-1'', ns_term RDF ''type'',
               ns_term DCAT ''Dataset''),
              (URIRef ''http://example.org/dataset/dataset-1'', ns_term DCTERMS ''title'',
               Literal ''Blood Pressure Dataset''),
              (URIRef ''http://example.org/dataset/dataset-1'', ns_term DCTERMS ''description'',
               Literal ''nan'')}\<rparr>)"
  by (simp add: run_defs) (auto simp: ns_defs)

text \<open>
  The parts of C2 that the code keeps are in \<open>description_triples\<close> above: a row without the
  label, or with a value whose text is empty, gets no description triple, and no row gets more
  than one.
\<close>

subsection \<open>C3: missing required columns\<close>

text \<open>
  C3 says that a table whose columns do not include both \<^verbatim>\<open>title\<close> and
  \<^verbatim>\<open>description\<close> is rejected with a \<^verbatim>\<open>ValueError\<close> however many data rows it has. The
  check for an empty frame comes first in \<^verbatim>\<open>convert_csv\<close>: a header-only file with the
  columns \<^verbatim>\<open>publisher,issued\<close> lacks both required columns and is converted without an error.
\<close>

theorem header_only_missing_columns_returns:
  "\<not> {''title'', ''description''} \<subseteq> set [''publisher'', ''issued'']
   \<and> convert_csv ascii_lib
       [''invalid.csv'' \<mapsto> Table \<lparr>columns = [''publisher'', ''issued''], records = []\<rparr>]
       (init ''http://example.org/'') ''invalid.csv'' =
     (Inr {}, init ''http://example.org/'')"
  by (simp add: convert_csv_def df_empty_def init_def)

text \<open>
  C3 as amended: a table with at least one data row whose columns do not include both
  \<^verbatim>\<open>title\<close> and \<^verbatim>\<open>description\<close> makes \<^verbatim>\<open>convert_csv\<close> raise the \<^verbatim>\<open>ValueError\<close> that
  names the missing columns, which are the required ones that the table lacks and are at least
  one; the converter is left as it was.
\<close>

theorem missing_columns_rejected:
  assumes "fs csv_path = Some (Table df)"
    and "\<not> df_empty df"
    and "\<not> {''title'', ''description''} \<subseteq> set (columns df)"
  shows "convert_csv lib fs self csv_path =
           (Inl (ValueError (Missing_required_columns
                   ({''title'', ''description''} - set (columns df)))), self)
         \<and> {''title'', ''description''} - set (columns df) \<noteq> {}"
proof -
  from assms(3) have missing: "{''title'', ''description''} - set (columns df) \<noteq> {}"
    by blast
  with assms(1,2) show ?thesis
    by (simp add: convert_csv_def Let_def)
qed

theorem missing_columns_rejected_witness:
  "[''invalid.csv'' \<mapsto> Table \<lparr>columns = [''publisher'', ''issued''],
                                records = [(IntLabel 0, [Val ''Test'', Val ''2023-01-01''])]\<rparr>]
     ''invalid.csv'' =
     Some (Table \<lparr>columns = [''publisher'', ''issued''],
                  records = [(IntLabel 0, [Val ''Test'', Val ''2023-01-01''])]\<rparr>)
   \<and> \<not> df_empty \<lparr>columns = [''publisher'', ''issued''],
                  records = [(IntLabel 0, [Val ''Test'', Val ''2023-01-01''])]\<rparr>
   \<and> \<not> {''title'', ''description''} \<subseteq>
        set (columns \<lparr>columns = [''publisher'', ''issued''],
                      records = [(IntLabel 0, [Val ''Test'', Val ''2023-01-01''])]\<rparr>)
   \<and> convert_csv ascii_lib
        [''invalid.csv'' \<mapsto> Table \<lparr>columns = [''publisher'', ''issued''],
                                    records = [(IntLabel 0, [Val ''Test'', Val ''2023-01-01''])]\<rparr>]
        (init ''http://example.org/'') ''invalid.csv'' =
      (Inl (ValueError (Missing_required_columns {''title'', ''description''})),
       init ''http://example.org/'')"
proof -
  let ?df = "\<lparr>columns = [''publisher'', ''issued''],
              records = [(IntLabel 0, [Val ''Test'', Val ''2023-01-01''])]\<rparr>"
  let ?fs = "[''invalid.csv'' \<mapsto> Table ?df]"
  have h1: "?fs ''invalid.csv'' = Some (Table ?df)"
    by simp
  have h2: "\<not> df_empty ?df"
    by (simp add: df_empty_def)
  have h3: "\<not> {''title'', ''description''} \<subseteq> set (columns ?df)"
    by simp
  have m: "{''title'', ''description''} - set (columns ?df) = {''title'', ''description''}"
    by auto
  from missing_columns_rejected [of ?fs "''invalid.csv''" ?df ascii_lib
      "init ''http://example.org/''", OF h1 h2 h3] h1 h2 h3 m
  show ?thesis by simp
qed

subsection \<open>C4: the case of a theme\<close>

text \<open>
  C4 says that the Theme Classifier turns its input into upper case before the lookup, so that
  a theme and its upper-case form are classified alike. \<^verbatim>\<open>_get_theme_uri\<close> looks its argument
  up as it is: \<^verbatim>\<open>science\<close> is not a key of the table and gets the default code, while
  \<^verbatim>\<open>SCIENCE\<close> gets \<^verbatim>\<open>SCIE\<close>.
\<close>

theorem classifier_is_case_sensitive:
  "ascii_upper ''science'' = ''SCIENCE''
   \<and> get_theme_uri ''science'' =
       URIRef ''http://publications.europa.eu/resource/authority/data-theme/HEAL''
   \<and> get_theme_uri (ascii_upper ''science'') =
       URIRef ''http://publications.europa.eu/resource/authority/data-theme/SCIE''
   \<and> get_theme_uri ''science'' \<noteq> get_theme_uri ''SCIENCE''
   \<and> get_theme_uri ''science'' \<noteq> get_theme_uri (ascii_upper ''science'')"
  by (simp add: get_theme_uri_def theme_mapping_def ascii_upper_def
        ascii_lowercase_def ascii_uppercase_def)

text \<open>
  C4 as amended: the upper case is made by the Record Mapper, which passes the upper-case form
  of the record's theme text to the classifier; the classifier itself matches exactly. So for
  every record with a theme, whatever its text, the one theme triple carries the code of the
  upper-case form of the text, and two records whose theme texts have the same upper-case form
  get the same code URI. The triple is in the graph after the call.
\<close>

theorem mapper_uppercases_theme:
  assumes "present row ''theme'' = Some v"
    and "present row' ''theme'' = Some v'"
    and "upper lib (str_cell v') = upper lib (str_cell v)"
    and "default_dataset_id row_index = Inr d"
  shows "add_dataset_to_graph lib self row row_index =
           Inr (self\<lparr>graph := graph self \<union> set (dataset_adds lib (base_uri self) row d)\<rparr>)
         \<and> with_predicate (ns_term DCAT ''theme'') (dataset_adds lib (base_uri self) row d) =
           [(dataset_uri lib (base_uri self) row d, ns_term DCAT ''theme'',
             get_theme_uri (upper lib (str_cell v)))]
         \<and> objects (ns_term DCAT ''theme'') (dataset_adds lib base' row' d') =
           objects (ns_term DCAT ''theme'') (dataset_adds lib (base_uri self) row d)"
  using assms
  by (simp add: objects_def theme_triples add_dataset_to_graph_ok)

theorem mapper_uppercases_theme_witness:
  "present [''theme'' \<mapsto> Val ''science''] ''theme'' = Some (Val ''science'')
   \<and> present [''theme'' \<mapsto> Val ''SCIENCE''] ''theme'' = Some (Val ''SCIENCE'')
   \<and> upper ascii_lib (str_cell (Val ''SCIENCE'')) = upper ascii_lib (str_cell (Val ''science''))
   \<and> default_dataset_id (IntLabel 0) = Inr ''dataset-1''
   \<and> objects (ns_term DCAT ''theme'')
        (dataset_adds ascii_lib ''http://example.org/'' [''theme'' \<mapsto> Val ''science''] ''dataset-1'') =
       [URIRef ''http://publications.europa.eu/resource/authority/data-theme/SCIE'']
   \<and> objects (ns_term DCAT ''theme'')
        (dataset_adds ascii_lib ''http://example.org/'' [''theme'' \<mapsto> Val ''SCIENCE''] ''dataset-2'') =
       [URIRef ''http://publications.europa.eu/resource/authority/data-theme/SCIE'']"
proof -
  have h1: "present [''theme'' \<mapsto> Val ''science''] ''theme'' = Some (Val ''science'')"
    by (simp add: present_def)
  have h2: "present [''theme'' \<mapsto> Val ''SCIENCE''] ''theme'' = Some (Val ''SCIENCE'')"
    by (simp add: present_def)
  have h3: "upper ascii_lib (str_cell (Val ''SCIENCE'')) =
      upper ascii_lib (str_cell (Val ''science''))"
    by (simp add: ascii_defs)
  have h4: "default_dataset_id (IntLabel 0) = Inr ''dataset-1''"
    by (rule default_dataset_id_first)
  have u: "get_theme_uri (upper ascii_lib (str_cell (Val ''science''))) =
      URIRef ''http://publications.europa.eu/resource/authority/data-theme/SCIE''"
    by (simp add: get_theme_uri_def theme_mapping_def ascii_defs)
  from mapper_uppercases_theme [OF h1 h2 h3 h4, of "init ''http://example.org/''"
      "''http://example.org/''" "''dataset-2''"] h1 h2 h3 h4 u
  show ?thesis by (simp add: objects_def init_def)
qed

subsection \<open>C5: the identity of a publisher\<close>

text \<open>
  C5: for a record with a publisher, the publisher's URI is the base URI joined with
  \<^verbatim>\<open>organization/\<close> and the slug, the slug being the publisher's name with every space
  replaced by a hyphen and then put in lower case; it is the object of the record's one
  publisher triple and the subject of the name triple, which are in the graph after the call.
  Two records whose publisher names have the same slug get the same publisher URI.
\<close>

theorem publisher_uri_collapses:
  assumes "present row ''publisher'' = Some v"
    and "present row' ''publisher'' = Some v'"
    and "lower lib (str_replace (CHR '' '') (CHR ''-'') (str_cell v')) =
         lower lib (str_replace (CHR '' '') (CHR ''-'') (str_cell v))"
    and "default_dataset_id row_index = Inr d"
  shows "add_dataset_to_graph lib self row row_index =
           Inr (self\<lparr>graph := graph self \<union> set (dataset_adds lib (base_uri self) row d)\<rparr>)
         \<and> objects (ns_term DCTERMS ''publisher'') (dataset_adds lib (base_uri self) row d) =
           [URIRef (urljoin lib (base_uri self) (''organization/'' @
              lower lib (str_replace (CHR '' '') (CHR ''-'') (str_cell v))))]
         \<and> subjects (ns_term FOAF ''name'') (dataset_adds lib (base_uri self) row d) =
           [URIRef (urljoin lib (base_uri self) (''organization/'' @
              lower lib (str_replace (CHR '' '') (CHR ''-'') (str_cell v))))]
         \<and> objects (ns_term DCTERMS ''publisher'') (dataset_adds lib (base_uri self) row' d') =
           objects (ns_term DCTERMS ''publisher'') (dataset_adds lib (base_uri self) row d)
         \<and> subjects (ns_term FOAF ''name'') (dataset_adds lib (base_uri self) row' d') =
           subjects (ns_term FOAF ''name'') (dataset_adds lib (base_uri self) row d)"
  using assms
  by (simp add: objects_def subjects_def publisher_triples publisher_name_triples
        add_dataset_to_graph_ok)

theorem publisher_uri_collapses_witness:
  "present [''publisher'' \<mapsto> Val ''Health Authority''] ''publisher'' = Some (Val ''Health Authority'')
   \<and> present [''publisher'' \<mapsto> Val ''health-authority''] ''publisher'' = Some (Val ''health-authority'')
   \<and> lower ascii_lib (str_replace (CHR '' '') (CHR ''-'') (str_cell (Val ''health-authority''))) =
       lower ascii_lib (str_replace (CHR '' '') (CHR ''-'') (str_cell (Val ''Health Authority'')))
   \<and> default_dataset_id (IntLabel 0) = Inr ''dataset-1''
   \<and> objects (ns_term DCTERMS ''publisher'')
        (dataset_adds ascii_lib ''http://example.org/''
           [''publisher'' \<mapsto> Val ''Health Authority''] ''dataset-1'') =
       [URIRef ''http://example.org/organization/health-authority'']
   \<and> objects (ns_term DCTERMS ''publisher'')
        (dataset_adds ascii_lib ''http://example.org/''
           [''publisher'' \<mapsto> Val ''health-authority''] ''dataset-2'') =
       [URIRef ''http://example.org/organization/health-authority'']"
proof -
  have h1: "present [''publisher'' \<mapsto> Val ''Health Authority''] ''publisher'' =
      Some (Val ''Health Authority'')"
    by (simp add: present_def)
  have h2: "present [''publisher'' \<mapsto> Val ''health-authority''] ''publisher'' =
      Some (Val ''health-authority'')"
    by (simp add: present_def)
  have h3: "lower ascii_lib (str_replace (CHR '' '') (CHR ''-'') (str_cell (Val ''health-authority''))) =
      lower ascii_lib (str_replace (CHR '' '') (CHR ''-'') (str_cell (Val ''Health Authority'')))"
    by (simp add: ascii_defs)
  have h4: "default_dataset_id (IntLabel 0) = Inr ''dataset-1''"
    by (rule default_dataset_id_first)
  have slug: "urljoin ascii_lib ''http://example.org/'' (''organization/'' @
      lower ascii_lib (str_replace (CHR '' '') (CHR ''-'') (str_cell (Val ''Health Authority'')))) =
      ''http://example.org/organization/health-authority''"
    by (simp add: ascii_defs)
  from publisher_uri_collapses [OF h1 h2 h3 h4, of "init ''http://example.org/''" "''dataset-2''"]
    h1 h2 h3 h4 slug
  show ?thesis by (simp add: init_def)
qed

subsection \<open>C6: the keywords of a record\<close>

text \<open>
  C6: for a record with a keyword field that is not the missing-value marker, the keyword
  triples are, in order, one for each piece of the field's text split at the semicolons, each
  carrying its piece stripped of the surrounding whitespace, empty pieces included; there is
  one more than there are semicolons in the text, and they are in the graph after the call.
\<close>

theorem keyword_triples:
  assumes "present row ''keyword'' = Some v"
    and "default_dataset_id row_index = Inr d"
  shows "add_dataset_to_graph lib self row row_index =
           Inr (self\<lparr>graph := graph self \<union> set (dataset_adds lib (base_uri self) row d)\<rparr>)
         \<and> with_predicate (ns_term DCAT ''keyword'') (dataset_adds lib (base_uri self) row d) =
           map (\<lambda>piece. (dataset_uri lib (base_uri self) row d, ns_term DCAT ''keyword'',
                          Literal (strip lib piece)))
               (str_split (CHR '';'') (str_cell v))
         \<and> length (with_predicate (ns_term DCAT ''keyword'')
                     (dataset_adds lib (base_uri self) row d)) =
           Suc (count_list (str_cell v) (CHR '';''))"
  using assms
  by (simp add: keyword_triples_of_pieces str_split_length add_dataset_to_graph_ok)

theorem keyword_triples_witness:
  "present [''keyword'' \<mapsto> Val ''blood;pressure;cardiology''] ''keyword'' =
     Some (Val ''blood;pressure;cardiology'')
   \<and> default_dataset_id (IntLabel 0) = Inr ''dataset-1''
   \<and> with_predicate (ns_term DCAT ''keyword'')
       (dataset_adds ascii_lib ''http://example.org/''
          [''keyword'' \<mapsto> Val ''blood;pressure;cardiology''] ''dataset-1'') =
     [(URIRef ''http://example.org/dataset/dataset-1'', ns_term DCAT ''keyword'', Literal ''blood''),
      (URIRef ''http://example.org/dataset/dataset-1'', ns_term DCAT ''keyword'', Literal ''pressure''),
      (URIRef ''http://example.org/dataset/dataset-1'', ns_term DCAT ''keyword'', Literal ''cardiology'')]
   \<and> present [''keyword'' \<mapsto> Val ''blood; pressure ;''] ''keyword'' = Some (Val ''blood; pressure ;'')
   \<and> objects (ns_term DCAT ''keyword'')
       (dataset_adds ascii_lib ''http://example.org/''
          [''keyword'' \<mapsto> Val ''blood; pressure ;''] ''dataset-1'') =
     [Literal ''blood'', Literal ''pressure'', Literal '''']"
proof -
  have h: "present [''keyword'' \<mapsto> Val ''blood;pressure;cardiology''] ''keyword'' =
      Some (Val ''blood;pressure;cardiology'')"
    by (simp add: present_def)
  have h': "present [''keyword'' \<mapsto> Val ''blood; pressure ;''] ''keyword'' =
      Some (Val ''blood; pressure ;'')"
    by (simp add: present_def)
  have d: "default_dataset_id (IntLabel 0) = Inr ''dataset-1''"
    by (rule default_dataset_id_first)
  have pieces: "str_split (CHR '';'') ''blood;pressure;cardiology'' =
      [''blood'', ''pressure'', ''cardiology'']"
    by simp
  have strip: "strip ascii_lib ''blood'' = ''blood''" "strip ascii_lib ''pressure'' = ''pressure''"
    "strip ascii_lib ''cardiology'' = ''cardiology''"
    by (simp_all add: ascii_defs)
  have pieces': "map (strip ascii_lib) (str_split (CHR '';'') ''blood; pressure ;'') =
      [''blood'', ''pressure'', '''']"
    by (simp add: ascii_defs)
  have uri: "dataset_uri ascii_lib ''http://example.org/''
      [''keyword'' \<mapsto> Val ''blood;pressure;cardiology''] ''dataset-1'' =
      URIRef ''http://example.org/dataset/dataset-1''"
    by (simp add: dataset_uri_def ascii_defs)
  from keyword_triples [OF h' d, of ascii_lib "init ''http://example.org/''"] pieces'
  have second: "objects (ns_term DCAT ''keyword'')
       (dataset_adds ascii_lib ''http://example.org/''
          [''keyword'' \<mapsto> Val ''blood; pressure ;''] ''dataset-1'') =
     [Literal ''blood'', Literal ''pressure'', Literal '''']"
    by (simp add: objects_def comp_def init_def)
  from keyword_triples [OF h d, of ascii_lib "init ''http://example.org/''"]
    h h' d pieces strip uri second
  show ?thesis by (simp add: init_def)
qed

subsection \<open>C7: the identifier of a record without an id\<close>




subsection \<open>C8: the theme classifier\<close>

text \<open>
  C8: \<^verbatim>\<open>_get_theme_uri\<close> is a function of its argument alone, defined on every text:
  \<^verbatim>\<open>health\<close>, \<^verbatim>\<open>HEALTH\<close> and \<^verbatim>\<open>Medicine\<close> all get the \<^verbatim>\<open>HEAL\<close> URI, so does the empty
  text and every text that is not a key of the table, and every result is the authority base,
  a slash and one of the five codes of the table.
\<close>

theorem theme_classifier_total:
  "get_theme_uri ''health'' = URIRef ''http://publications.europa.eu/resource/authority/data-theme/HEAL''
   \<and> get_theme_uri ''HEALTH'' = URIRef ''http://publications.europa.eu/resource/authority/data-theme/HEAL''
   \<and> get_theme_uri ''Medicine'' = URIRef ''http://publications.europa.eu/resource/authority/data-theme/HEAL''
   \<and> get_theme_uri [] = URIRef ''http://publications.europa.eu/resource/authority/data-theme/HEAL''
   \<and> (theme_mapping t = None \<longrightarrow>
        get_theme_uri t = URIRef ''http://publications.europa.eu/resource/authority/data-theme/HEAL'')
   \<and> (\<exists>code. code \<in> {''HEAL'', ''SCIE'', ''EDUC'', ''ENVI'', ''TECH''} \<and>
        get_theme_uri t =
          URIRef (''http://publications.europa.eu/resource/authority/data-theme'' @ ''/'' @ code))"
proof -
  have known:
    "get_theme_uri ''health'' = URIRef ''http://publications.europa.eu/resource/authority/data-theme/HEAL''"
    "get_theme_uri ''HEALTH'' = URIRef ''http://publications.europa.eu/resource/authority/data-theme/HEAL''"
    "get_theme_uri ''Medicine'' = URIRef ''http://publications.europa.eu/resource/authority/data-theme/HEAL''"
    "get_theme_uri [] = URIRef ''http://publications.europa.eu/resource/authority/data-theme/HEAL''"
    by (simp_all add: get_theme_uri_def theme_mapping_def)
  have dflt: "theme_mapping t = None \<longrightarrow>
      get_theme_uri t = URIRef ''http://publications.europa.eu/resource/authority/data-theme/HEAL''"
    by (simp add: get_theme_uri_def)
  have form: "\<exists>code. code \<in> {''HEAL'', ''SCIE'', ''EDUC'', ''ENVI'', ''TECH''} \<and>
        get_theme_uri t =
          URIRef (''http://publications.europa.eu/resource/authority/data-theme'' @ ''/'' @ code)"
  proof (cases "theme_mapping t")
    case None
    then show ?thesis by (simp add: get_theme_uri_def)
  next
    case (Some code)
    then have "code \<in> {''HEAL'', ''SCIE'', ''EDUC'', ''ENVI'', ''TECH''}"
      by (auto simp: theme_mapping_def split: if_splits)
    with Some show ?thesis
      by (simp add: get_theme_uri_def)
  qed
  from known dflt form show ?thesis by blast
qed

theorem theme_classifier_total_witness:
  "theme_mapping ''anything-unrecognized'' = None
   \<and> get_theme_uri ''anything-unrecognized'' =
       URIRef ''http://publications.europa.eu/resource/authority/data-theme/HEAL''"
proof -
  have h: "theme_mapping ''anything-unrecognized'' = None"
    by (simp add: theme_mapping_def)
  from theme_classifier_total [of "''anything-unrecognized''"] h show ?thesis by blast
qed

subsection \<open>C9: a table without data rows\<close>

text \<open>
  C9: when the table read from the path has no data rows, \<^verbatim>\<open>convert_csv\<close> raises nothing and
  returns the converter's graph as it was, whatever it held; the converter is unchanged.
\<close>

theorem empty_table_is_noop:
  assumes "fs csv_path = Some (Table df)"
    and "records df = []"
  shows "convert_csv lib fs self csv_path = (Inr (graph self), self)"
  using assms by (simp add: convert_csv_def df_empty_def)

theorem empty_table_is_noop_witness:
  "[''empty.csv'' \<mapsto> Table \<lparr>columns = [''title'', ''description''], records = []\<rparr>] ''empty.csv'' =
     Some (Table \<lparr>columns = [''title'', ''description''], records = []\<rparr>)
   \<and> records \<lparr>columns = [''title'', ''description''], records = []\<rparr> = []
   \<and> convert_csv ascii_lib
        [''empty.csv'' \<mapsto> Table \<lparr>columns = [''title'', ''description''], records = []\<rparr>]
        \<lparr>base_uri = ''http://example.org/'',
         graph = {(URIRef ''http://example.org/dataset/bp-001'', ns_term DCTERMS ''title'',
                   Literal ''Blood Pressure Dataset'')}\<rparr>
        ''empty.csv'' =
      (Inr {(URIRef ''http://example.org/dataset/bp-001'', ns_term DCTERMS ''title'',
             Literal ''Blood Pressure Dataset'')},
       \<lparr>base_uri = ''http://example.org/'',
        graph = {(URIRef ''http://example.org/dataset/bp-001'', ns_term DCTERMS ''title'',
                  Literal ''Blood Pressure Dataset'')}\<rparr>)"
proof -
  let ?df = "\<lparr>columns = [''title'', ''description''], records = []\<rparr>"
  let ?fs = "[''empty.csv'' \<mapsto> Table ?df]"
  have h1: "?fs ''empty.csv'' = Some (Table ?df)"
    by simp
  have h2: "records ?df = []"
    by simp
  from empty_table_is_noop [of ?fs "''empty.csv''" ?df ascii_lib
      "\<lparr>base_uri = ''http://example.org/'',
        graph = {(URIRef ''http://example.org/dataset/bp-001'', ns_term DCTERMS ''title'',
                  Literal ''Blood Pressure Dataset'')}\<rparr>", OF h1 h2] h1 h2
  show ?thesis by simp
qed

subsection \<open>C10: a failed conversion and the graph\<close>

text \<open>
  C10 says that no triple is added on any failing path, since every error is raised before
  the first record is mapped. The mapper itself can raise: line 106 adds one to the row's index
  label, and a text label makes that a \<^verbatim>\<open>TypeError\<close>. The file with the header
  \<^verbatim>\<open>title,description\<close> and the one data line \<^verbatim>\<open>x,A,B\<close> fails inside the mapping of its
  first record. With the data lines \<^verbatim>\<open>,A,B\<close> and \<^verbatim>\<open>x,C,D\<close> the first label is the
  missing-value marker, which a number can be added to: the first record is mapped, the second
  raises, and the converter's graph keeps the three triples of the first.
\<close>

theorem type_error_inside_loop:
  "convert_csv ascii_lib
     [''extra.csv'' \<mapsto> Table \<lparr>columns = [''title'', ''description''],
                               records = [(StrLabel ''x'', [Val ''A'', Val ''B''])]\<rparr>]
     (init ''http://example.org/'') ''extra.csv'' =
   (Inl TypeError, init ''http://example.org/'')
   \<and> convert_csv ascii_lib
     [''extra.csv'' \<mapsto> Table \<lparr>columns = [''title'', ''description''],
                               records = [(NumLabel ''nan'', [Val ''A'', Val ''B'']),
                                          (StrLabel ''x'', [Val ''C'', Val ''D''])]\<rparr>]
     (init ''http://example.org/'') ''extra.csv'' =
   (Inl TypeError,
    \<lparr>base_uri = ''http://example.org/'',
     graph = {(URIRef ''http://example.org/dataset/dataset-nan'', ns_term RDF ''type'',
               ns_term DCAT ''Dataset''),
              (URIRef ''http://example.org/dataset/dataset-nan'', ns_term DCTERMS ''title'',
               Literal ''A''),
              (URIRef ''http://example.org/dataset/dataset-nan'', ns_term DCTERMS ''description'',
               Literal ''B'')}\<rparr>)"
  by (simp add: run_defs) (auto simp: ns_defs)

text \<open>
  The three exceptions that \<^verbatim>\<open>convert_csv\<close> raises itself come before the loop: on each
  of these paths the converter is returned as it was.
\<close>

lemma convert_csv_own_errors:
  "(fs csv_path = None \<longrightarrow>
      convert_csv lib fs self csv_path =
        (Inl (FileNotFoundError (''CSV file not found: '' @ csv_path)), self))
   \<and> (fs csv_path = Some (Unparsable msg) \<longrightarrow>
      convert_csv lib fs self csv_path = (Inl (ValueError (Failed_to_read msg)), self))
   \<and> (fs csv_path = Some (Table df) \<and> \<not> df_empty df
        \<and> \<not> {''title'', ''description''} \<subseteq> set (columns df) \<longrightarrow>
      convert_csv lib fs self csv_path =
        (Inl (ValueError (Missing_required_columns
                ({''title'', ''description''} - set (columns df)))), self))"
  by (auto simp: convert_csv_def Let_def)

text \<open>
  C10 as amended: whenever \<^verbatim>\<open>convert_csv\<close> raises a \<^verbatim>\<open>FileNotFoundError\<close> or a
  \<^verbatim>\<open>ValueError\<close>, that is, any exception but the \<^verbatim>\<open>TypeError\<close> of the mapper, the
  converter, and so its triple store, is exactly as it was before the call: no triple is added
  or removed.
\<close>

theorem convert_csv_atomic_on_error:
  assumes "fst (convert_csv lib fs self csv_path) = Inl e"
    and "e \<noteq> TypeError"
  shows "snd (convert_csv lib fs self csv_path) = self
         \<and> graph (snd (convert_csv lib fs self csv_path)) = graph self"
proof (cases "fs csv_path")
  case None
  with assms(1) show ?thesis by (simp add: convert_csv_def)
next
  case (Some f)
  show ?thesis
  proof (cases f)
    case (Unparsable msg)
    with Some assms(1) show ?thesis by (simp add: convert_csv_def)
  next
    case (Table df)
    show ?thesis
    proof (cases "df_empty df \<or> {''title'', ''description''} - set (columns df) \<noteq> {}")
      case True
      with Some Table assms(1) show ?thesis
        by (auto simp: convert_csv_def Let_def split: if_splits)
    next
      case False
      obtain r self' where run: "process_rows lib self (iterrows df) = (r, self')"
        by (cases "process_rows lib self (iterrows df)")
      with False Some Table assms(1) have "r = Some e"
        by (cases r) (simp_all add: convert_csv_def Let_def)
      with run process_rows_error [of lib self "iterrows df" e] assms(2)
      show ?thesis by simp
    qed
  qed
qed

theorem convert_csv_atomic_on_error_witness:
  "fst (convert_csv ascii_lib Map.empty
          \<lparr>base_uri = ''http://example.org/'',
           graph = {(URIRef ''http://example.org/dataset/bp-001'', ns_term DCTERMS ''title'',
                     Literal ''Blood Pressure Dataset'')}\<rparr>
          ''/nonexistent/file.csv'') =
     Inl (FileNotFoundError ''CSV file not found: /nonexistent/file.csv'')
   \<and> FileNotFoundError ''CSV file not found: /nonexistent/file.csv'' \<noteq> TypeError
   \<and> snd (convert_csv ascii_lib Map.empty
          \<lparr>base_uri = ''http://example.org/'',
           graph = {(URIRef ''http://example.org/dataset/bp-001'', ns_term DCTERMS ''title'',
                     Literal ''Blood Pressure Dataset'')}\<rparr>
          ''/nonexistent/file.csv'') =
     \<lparr>base_uri = ''http://example.org/'',
      graph = {(URIRef ''http://example.org/dataset/bp-001'', ns_term DCTERMS ''title'',
                Literal ''Blood Pressure Dataset'')}\<rparr>"
proof -
  let ?self = "\<lparr>base_uri = ''http://example.org/'',
      graph = {(URIRef ''http://example.org/dataset/bp-001'', ns_term DCTERMS ''title'',
                Literal ''Blood Pressure Dataset'')}\<rparr>"
  have h1: "fst (convert_csv ascii_lib Map.empty ?self ''/nonexistent/file.csv'') =
      Inl (FileNotFoundError ''CSV file not found: /nonexistent/file.csv'')"
    by (simp add: convert_csv_def)
  have h2: "FileNotFoundError ''CSV file not found: /nonexistent/file.csv'' \<noteq> TypeError"
    by simp
  from convert_csv_atomic_on_error [OF h1 h2] h1 h2 show ?thesis by simp
qed

end
